theory Spec2Isabelle
  imports Complex_Main "HOL-Library.AList" "HOL-Library.Sublist"
begin

section \<open>Values handled by the configuration manager\<close>

text \<open>
  The manager of \<^verbatim>\<open>StreamingCommunity/Util/_jsonConfig.py\<close> stores what
  \<^verbatim>\<open>json.load\<close> and \<^verbatim>\<open>response.json()\<close> return: the Python image of a JSON
  document. A Python \<^verbatim>\<open>dict\<close> with string keys is an association list (insertion order
  kept, lookup by \<open>map_of\<close>, assignment by \<open>AList.update\<close>, which overwrites in place
  or appends). Text is a \<open>string\<close> whose characters are the code points below 256.

  A Python \<^verbatim>\<open>float\<close> is a finite double, an infinity or a NaN. Every finite double is
  a rational number, so the finite ones are modelled by \<open>rat\<close> (the two zeros are
  identified); no arithmetic on floats is performed by the module.
\<close>

datatype pyfloat = Finite rat | PosInf | NegInf | NaN

datatype json =
    JNull
  | JBool bool
  | JInt int
  | JFloat pyfloat
  | JStr string
  | JList "json list"
  | JDict "(string \<times> json) list"

text \<open>
  The exceptions that are instances of \<^verbatim>\<open>Exception\<close>, and what a call can raise:
  one of those, or \<^verbatim>\<open>SystemExit\<close>, which \<^verbatim>\<open>except Exception\<close> does not catch.
  \<open>ValueError\<close> carries its message, \<open>KeyError\<close> the missing key.
\<close>

datatype exc =
    ValueError string
  | KeyError string
  | TypeError
  | AttributeError
  | OverflowError
  | OSError
  | JSONDecodeError
  | RequestException

datatype raised = Exception exc | SystemExit int

text \<open>The type objects passed as \<^verbatim>\<open>data_type\<close>; \<open>T_other\<close> is any further type.\<close>

datatype pytype = T_int | T_bool | T_list | T_NoneType | T_str | T_float | T_dict | T_other string

section \<open>Built-in operations used by the module\<close>

subsection \<open>Containers: \<^verbatim>\<open>x in c\<close>, \<^verbatim>\<open>c[x]\<close> and \<^verbatim>\<open>c[x] = v\<close> with a string \<open>x\<close>\<close>

fun py_contains :: "json \<Rightarrow> string \<Rightarrow> exc + bool" where
  "py_contains (JDict d) k = Inr (map_of d k \<noteq> None)"
| "py_contains (JList xs) k = Inr (JStr k \<in> set xs)"
| "py_contains (JStr s) k = Inr (sublist k s)"
| "py_contains _ k = Inl TypeError"

fun py_getitem :: "json \<Rightarrow> string \<Rightarrow> exc + json" where
  "py_getitem (JDict d) k = (case map_of d k of None \<Rightarrow> Inl (KeyError k) | Some v \<Rightarrow> Inr v)"
| "py_getitem _ k = Inl TypeError"

fun py_setitem :: "json \<Rightarrow> string \<Rightarrow> json \<Rightarrow> exc + json" where
  "py_setitem (JDict d) k v = Inr (JDict (AList.update k v d))"
| "py_setitem _ k v = Inl TypeError"

subsection \<open>\<^verbatim>\<open>bool(value)\<close>\<close>

fun py_bool :: "json \<Rightarrow> bool" where
  "py_bool JNull = False"
| "py_bool (JBool b) = b"
| "py_bool (JInt n) = (n \<noteq> 0)"
| "py_bool (JFloat f) = (f \<noteq> Finite 0)"
| "py_bool (JStr s) = (s \<noteq> [])"
| "py_bool (JList xs) = (xs \<noteq> [])"
| "py_bool (JDict d) = (d \<noteq> [])"

subsection \<open>\<^verbatim>\<open>str.strip()\<close> and \<^verbatim>\<open>str.split(',')\<close>\<close>

definition isspace :: "char \<Rightarrow> bool" where
  "isspace c \<longleftrightarrow> c \<in> set [CHR 0x09, CHR 0x0A, CHR 0x0B, CHR 0x0C, CHR 0x0D,
                         CHR 0x1C, CHR 0x1D, CHR 0x1E, CHR 0x1F, CHR 0x20, CHR 0x85, CHR 0xA0]"

definition strip :: "string \<Rightarrow> string" where
  "strip s = rev (dropWhile isspace (rev (dropWhile isspace s)))"

fun split_on :: "char \<Rightarrow> string \<Rightarrow> string \<Rightarrow> string list" where
  "split_on sep cur [] = [rev cur]"
| "split_on sep cur (c # cs) =
     (if c = sep then rev cur # split_on sep [] cs else split_on sep (c # cur) cs)"

definition split_comma :: "string \<Rightarrow> string list" where
  "split_comma s = split_on (CHR '','') [] s"

subsection \<open>\<^verbatim>\<open>repr\<close> of text and of a count\<close>

text \<open>
  \<^verbatim>\<open>repr\<close> of a string: in single quotes, or in double quotes when the string has a
  single quote and no double quote; the quote in use and the backslash are escaped
  with a backslash, tab, line feed and carriage return are written with a backslash
  and the letter \<open>t\<close>, \<open>n\<close> or \<open>r\<close>, and every other character that is not
  printable is written with a backslash, the letter \<open>x\<close> and two hexadecimal digits.
  \<open>CHR 0x5C\<close> is the backslash, \<open>CHR 0x27\<close> the single and \<open>CHR 0x22\<close> the
  double quote.
\<close>

fun show_nat :: "nat \<Rightarrow> string" where
  "show_nat n =
     (if n < 10 then [char_of (48 + n)]
      else show_nat (n div 10) @ [char_of (48 + n mod 10)])"

definition hex_digit :: "nat \<Rightarrow> char" where
  "hex_digit k = ''0123456789abcdef'' ! k"

definition printable :: "char \<Rightarrow> bool" where
  "printable c \<longleftrightarrow>
     (let n = (of_char c :: nat) in (32 \<le> n \<and> n < 127) \<or> (161 \<le> n \<and> n \<noteq> 173))"

definition repr_char :: "char \<Rightarrow> char \<Rightarrow> string" where
  "repr_char q c =
     (if c = q \<or> c = CHR 0x5C then [CHR 0x5C, c]
      else if c = CHR 0x09 then [CHR 0x5C, CHR ''t'']
      else if c = CHR 0x0A then [CHR 0x5C, CHR ''n'']
      else if c = CHR 0x0D then [CHR 0x5C, CHR ''r'']
      else if printable c then [c]
      else [CHR 0x5C, CHR ''x'', hex_digit (of_char c div 16), hex_digit (of_char c mod 16)])"

definition py_repr :: "string \<Rightarrow> string" where
  "py_repr s =
     (let q = (if CHR 0x27 \<in> set s \<and> CHR 0x22 \<notin> set s then CHR 0x22 else CHR 0x27)
      in [q] @ concat (map (repr_char q) s) @ [q])"

subsection \<open>\<^verbatim>\<open>int(value)\<close>\<close>

text \<open>
  On text, \<^verbatim>\<open>int\<close> skips white space at both ends, reads an optional sign and
  then the longest run of decimal digits and underscores. The white space it skips is
  not that of \<^verbatim>\<open>strip\<close>: the four separators \<open>0x1C\<close> to \<open>0x1F\<close> are not
  skipped. An underscore is allowed between two digits only. A run of more than
  \<open>max_str_digits\<close> digits is refused, with a message of its own, whatever follows
  the run; 4300 is the limit of the interpreter unless the process changes it, and
  the module does not. Any other text that is not a run of digits, and nothing more,
  is an invalid literal; the message shows at most 200 characters of its \<^verbatim>\<open>repr\<close>.
\<close>

definition isdigit :: "char \<Rightarrow> bool" where
  "isdigit c \<longleftrightarrow> c \<in> set ''0123456789''"

definition digit_val :: "char \<Rightarrow> int" where
  "digit_val c = of_char c - 48"

definition int_space :: "char \<Rightarrow> bool" where
  "int_space c \<longleftrightarrow>
     c \<in> set [CHR 0x09, CHR 0x0A, CHR 0x0B, CHR 0x0C, CHR 0x0D, CHR 0x20, CHR 0x85, CHR 0xA0]"

definition int_strip :: "string \<Rightarrow> string" where
  "int_strip s = rev (dropWhile int_space (rev (dropWhile int_space s)))"

definition max_str_digits :: nat where
  "max_str_digits = 4300"

definition invalid_literal :: "string \<Rightarrow> string" where
  "invalid_literal s = ''invalid literal for int() with base 10: '' @ take 200 (py_repr s)"

definition exceeds_limit :: "nat \<Rightarrow> string" where
  "exceeds_limit n =
     ''Exceeds the limit ('' @ show_nat max_str_digits
     @ '' digits) for integer string conversion: value has '' @ show_nat n
     @ '' digits; use sys.set_int_max_str_digits() to increase the limit''"

text \<open>
  The run of digits: its value, the number of its digits and what follows it, or
  nothing when an underscore is misplaced.
\<close>

fun scan_digits :: "int \<Rightarrow> nat \<Rightarrow> bool \<Rightarrow> string \<Rightarrow> (int \<times> nat \<times> string) option" where
  "scan_digits acc n prev [] = (if prev \<or> n = 0 then Some (acc, n, []) else None)"
| "scan_digits acc n prev (c # cs) =
     (if isdigit c then scan_digits (10 * acc + digit_val c) (Suc n) True cs
      else if c = CHR ''_'' then (if prev then scan_digits acc n False cs else None)
      else if prev \<or> n = 0 then Some (acc, n, c # cs)
      else None)"

text \<open>The integer, or the message of the \<open>ValueError\<close>.\<close>

definition int_of_str :: "string \<Rightarrow> string + int" where
  "int_of_str s =
     (let t = int_strip s;
          neg = (t \<noteq> [] \<and> hd t = CHR ''-'');
          body = (if t \<noteq> [] \<and> (hd t = CHR ''-'' \<or> hd t = CHR ''+'') then tl t else t)
      in case scan_digits 0 0 False body of
           None \<Rightarrow> Inl (invalid_literal s)
         | Some (v, n, rest) \<Rightarrow>
             if max_str_digits < n then Inl (exceeds_limit n)
             else if n = 0 \<or> rest \<noteq> [] then Inl (invalid_literal s)
             else Inr (if neg then - v else v))"

fun py_int :: "json \<Rightarrow> exc + int" where
  "py_int (JInt n) = Inr n"
| "py_int (JBool b) = Inr (if b then 1 else 0)"
| "py_int (JFloat (Finite q)) = Inr (if 0 \<le> q then \<lfloor>q\<rfloor> else \<lceil>q\<rceil>)"
| "py_int (JFloat NaN) = Inl (ValueError ''cannot convert float NaN to integer'')"
| "py_int (JFloat _) = Inl OverflowError"
| "py_int (JStr s) = (case int_of_str s of Inl m \<Rightarrow> Inl (ValueError m) | Inr n \<Rightarrow> Inr n)"
| "py_int _ = Inl TypeError"

section \<open>The manager and its surroundings\<close>

text \<open>
  What the module prints and logs. The wording and styling of the lines is not
  modelled, only which line it is and the data it carries.
\<close>

datatype msg =
    ConfigFilePath string
  | ReadingFile string
  | ConfigLoaded
  | ConfigNotFoundDownloading
  | ConfigDownloaded
  | ProcessingComplete
  | ErrorReadingConfig exc
  | Downloading string string
  | DownloadOk string
  | DownloadFailedStatus string int
  | DownloadFailed string exc
  | FetchingSite
  | SiteFetched
  | SiteFailedStatus int
  | SiteError exc
  | ReadKey string
  | ErrorSettingKey string string bool exc
  | ErrorWriting exc

datatype event = Console msg | LogInfo msg | LogError msg | Print msg

text \<open>
  The fields of \<^verbatim>\<open>ConfigManager\<close> (\<open>file_path\<close>, \<open>config\<close>, \<open>configSite\<close>,
  \<open>cache\<close>) together with what the process can observe outside the object: the files
  (path to content), the paths whose \<^verbatim>\<open>open\<close> fails, and the lines emitted so far.
\<close>

record state =
  file_path :: string
  config :: json
  configSite :: json
  cache :: "(string \<times> json) list"
  files :: "string \<rightharpoonup> string"
  denied :: "string set"
  out :: "event list"

definition emit :: "event \<Rightarrow> state \<Rightarrow> state" where
  "emit e s = s\<lparr>out := out s @ [e]\<rparr>"

section \<open>Key lookup\<close>

definition origin :: "bool \<Rightarrow> string" where
  "origin from_site = (if from_site then ''site'' else ''config'')"

definition cache_key :: "bool \<Rightarrow> string \<Rightarrow> string \<Rightarrow> string" where
  "cache_key from_site section key = origin from_site @ ''.'' @ section @ ''.'' @ key"

definition key_not_found :: "string \<Rightarrow> string \<Rightarrow> bool \<Rightarrow> exc" where
  "key_not_found key section from_site =
     ValueError (''Key '' @ [CHR 0x27] @ key @ [CHR 0x27] @ '' not found in section ''
                 @ [CHR 0x27] @ section @ [CHR 0x27] @ '' of ''
                 @ (if from_site then ''site'' else ''main'') @ '' config'')"

definition convert_to_data_type :: "json \<Rightarrow> pytype \<Rightarrow> exc + json" where
  "convert_to_data_type value data_type =
     (if data_type = T_int then
        (case py_int value of Inl e \<Rightarrow> Inl e | Inr n \<Rightarrow> Inr (JInt n))
      else if data_type = T_bool then Inr (JBool (py_bool value))
      else if data_type = T_list then
        (case value of
           JList xs \<Rightarrow> Inr value
         | JStr s \<Rightarrow> Inr (JList (map (\<lambda>item. JStr (strip item)) (split_comma s)))
         | _ \<Rightarrow> Inl AttributeError)
      else if data_type = T_NoneType then Inr JNull
      else Inr value)"

text \<open>
  The test \<^verbatim>\<open>section in config_source and key in config_source[section]\<close> and the
  read \<^verbatim>\<open>config_source[section][key]\<close> of \<^verbatim>\<open>read_key\<close>, with the
  \<^verbatim>\<open>ValueError\<close> of the \<^verbatim>\<open>else\<close> branch.
\<close>

definition lookup_value :: "json \<Rightarrow> string \<Rightarrow> string \<Rightarrow> bool \<Rightarrow> exc + json" where
  "lookup_value src section key from_site =
     (case py_contains src section of
        Inl e \<Rightarrow> Inl e
      | Inr False \<Rightarrow> Inl (key_not_found key section from_site)
      | Inr True \<Rightarrow>
          (case py_getitem src section of
             Inl e \<Rightarrow> Inl e
           | Inr sec \<Rightarrow>
               (case py_contains sec key of
                  Inl e \<Rightarrow> Inl e
                | Inr False \<Rightarrow> Inl (key_not_found key section from_site)
                | Inr True \<Rightarrow> py_getitem sec key)))"

definition config_source :: "bool \<Rightarrow> state \<Rightarrow> json" where
  "config_source from_site s = (if from_site then configSite s else config s)"

definition read_key :: "string \<Rightarrow> string \<Rightarrow> pytype \<Rightarrow> bool \<Rightarrow> state \<Rightarrow> (exc + json) \<times> state" where
  "read_key section key data_type from_site s =
     (let ck = cache_key from_site section key;
          s1 = emit (LogInfo (ReadKey ck)) s
      in case map_of (cache s1) ck of
           Some v \<Rightarrow> (Inr v, s1)
         | None \<Rightarrow>
             (let src = config_source from_site s1
              in case lookup_value src section key from_site of
                   Inl e \<Rightarrow> (Inl e, s1)
                 | Inr value \<Rightarrow>
                     (case convert_to_data_type value data_type of
                        Inl e \<Rightarrow> (Inl e, s1)
                      | Inr v \<Rightarrow> (Inr v, s1\<lparr>cache := AList.update ck v (cache s1)\<rparr>))))"

subsection \<open>The getters\<close>

definition get :: "string \<Rightarrow> string \<Rightarrow> state \<Rightarrow> (exc + json) \<times> state" where
  "get section key = read_key section key T_str False"

definition get_int :: "string \<Rightarrow> string \<Rightarrow> state \<Rightarrow> (exc + json) \<times> state" where
  "get_int section key = read_key section key T_int False"

definition get_float :: "string \<Rightarrow> string \<Rightarrow> state \<Rightarrow> (exc + json) \<times> state" where
  "get_float section key = read_key section key T_float False"

definition get_bool :: "string \<Rightarrow> string \<Rightarrow> state \<Rightarrow> (exc + json) \<times> state" where
  "get_bool section key = read_key section key T_bool False"

definition get_list :: "string \<Rightarrow> string \<Rightarrow> state \<Rightarrow> (exc + json) \<times> state" where
  "get_list section key = read_key section key T_list False"

definition get_dict :: "string \<Rightarrow> string \<Rightarrow> state \<Rightarrow> (exc + json) \<times> state" where
  "get_dict section key = read_key section key T_dict False"

definition get_site :: "string \<Rightarrow> string \<Rightarrow> state \<Rightarrow> (exc + json) \<times> state" where
  "get_site section key = read_key section key T_str True"

definition get_site_int :: "string \<Rightarrow> string \<Rightarrow> state \<Rightarrow> (exc + json) \<times> state" where
  "get_site_int section key = read_key section key T_int True"

definition get_site_float :: "string \<Rightarrow> string \<Rightarrow> state \<Rightarrow> (exc + json) \<times> state" where
  "get_site_float section key = read_key section key T_float True"

definition get_site_bool :: "string \<Rightarrow> string \<Rightarrow> state \<Rightarrow> (exc + json) \<times> state" where
  "get_site_bool section key = read_key section key T_bool True"

definition get_site_list :: "string \<Rightarrow> string \<Rightarrow> state \<Rightarrow> (exc + json) \<times> state" where
  "get_site_list section key = read_key section key T_list True"

definition get_site_dict :: "string \<Rightarrow> string \<Rightarrow> state \<Rightarrow> (exc + json) \<times> state" where
  "get_site_dict section key = read_key section key T_dict True"

section \<open>Setting a key\<close>

text \<open>
  The body of the \<^verbatim>\<open>try\<close> of \<^verbatim>\<open>set_key\<close>: the new target store and the new
  cache, or the exception raised before anything was assigned.
\<close>

definition set_key_body ::
  "json \<Rightarrow> (string \<times> json) list \<Rightarrow> string \<Rightarrow> string \<Rightarrow> json \<Rightarrow> bool
     \<Rightarrow> exc + json \<times> (string \<times> json) list" where
  "set_key_body config_target cch section key value to_site =
     (case py_contains config_target section of
        Inl e \<Rightarrow> Inl e
      | Inr present \<Rightarrow>
          (case (if present then Inr config_target else py_setitem config_target section (JDict [])) of
             Inl e \<Rightarrow> Inl e
           | Inr t1 \<Rightarrow>
               (case py_getitem t1 section of
                  Inl e \<Rightarrow> Inl e
                | Inr sec \<Rightarrow>
                    (case py_setitem sec key value of
                       Inl e \<Rightarrow> Inl e
                     | Inr sec' \<Rightarrow>
                         (case py_setitem t1 section sec' of
                            Inl e \<Rightarrow> Inl e
                          | Inr t2 \<Rightarrow>
                              Inr (t2, AList.update (cache_key to_site section key) value cch))))))"

definition set_key :: "string \<Rightarrow> string \<Rightarrow> json \<Rightarrow> bool \<Rightarrow> state \<Rightarrow> state" where
  "set_key section key value to_site s =
     (case set_key_body (config_source to_site s) (cache s)
             section key value to_site of
        Inl e \<Rightarrow> emit (Print (ErrorSettingKey key section to_site e)) s
      | Inr (t, c) \<Rightarrow>
          (if to_site then s\<lparr>configSite := t, cache := c\<rparr> else s\<lparr>config := t, cache := c\<rparr>))"

section \<open>Files, the network and the JSON codec\<close>

text \<open>
  The module reaches outside the process through \<^verbatim>\<open>requests.get\<close>,
  \<^verbatim>\<open>json.load\<close>, \<^verbatim>\<open>json.dump\<close> and \<^verbatim>\<open>open\<close>. None of them is code of the
  module, so the first three are parameters: \<open>http_get\<close> gives, for a URL, the
  response or the exception raised by the request; \<open>json_loads\<close> parses a text or
  raises; \<open>json_dumps\<close> is the text that \<^verbatim>\<open>json.dump(_, f, indent=4)\<close> writes.
  Of a response the module reads \<^verbatim>\<open>status_code\<close>, \<^verbatim>\<open>content\<close> and
  \<^verbatim>\<open>json()\<close>. The content of a file is taken as text, the same whether it was
  written as bytes or as text.
\<close>

record response =
  status_code :: int
  content :: string
  json_body :: "exc + json"

record pyenv =
  http_get :: "string \<Rightarrow> exc + response"
  json_loads :: "string \<Rightarrow> exc + json"
  json_dumps :: "json \<Rightarrow> string"

definition path_exists :: "string \<Rightarrow> state \<Rightarrow> bool" where
  "path_exists path s \<longleftrightarrow> files s path \<noteq> None"

definition open_read :: "string \<Rightarrow> state \<Rightarrow> exc + string" where
  "open_read path s =
     (if path \<in> denied s then Inl OSError
      else case files s path of None \<Rightarrow> Inl OSError | Some text \<Rightarrow> Inr text)"

definition open_write :: "string \<Rightarrow> string \<Rightarrow> state \<Rightarrow> exc + state" where
  "open_write path text s =
     (if path \<in> denied s then Inl OSError
      else Inr (s\<lparr>files := (files s)(path \<mapsto> text)\<rparr>))"

text \<open>
  \<^verbatim>\<open>try: body except Exception as e: handler\<close>: the handler runs in the state the
  body had reached when it raised; \<^verbatim>\<open>SystemExit\<close> passes through.
\<close>

definition try_except ::
  "(raised + 'a) \<times> state \<Rightarrow> (exc \<Rightarrow> state \<Rightarrow> (raised + 'a) \<times> state) \<Rightarrow> (raised + 'a) \<times> state" where
  "try_except body handler =
     (case body of
        (Inl (Exception e), s) \<Rightarrow> handler e s
      | (Inl (SystemExit n), s) \<Rightarrow> (Inl (SystemExit n), s)
      | (Inr x, s) \<Rightarrow> (Inr x, s))"

section \<open>Construction, loading and writing\<close>

text \<open>\<^verbatim>\<open>os.path.join\<close> of two components (POSIX).\<close>

definition path_join :: "string \<Rightarrow> string \<Rightarrow> string" where
  "path_join a b =
     (if b \<noteq> [] \<and> hd b = CHR ''/'' then b
      else if a = [] \<or> last a = CHR ''/'' then a @ b
      else a @ ''/'' @ b)"

text \<open>
  \<^verbatim>\<open>__init__\<close>; \<open>base_path\<close> is the directory the constructor computes from
  \<^verbatim>\<open>sys.frozen\<close> and \<^verbatim>\<open>__file__\<close>.
\<close>

definition init :: "string \<Rightarrow> string \<Rightarrow> state \<Rightarrow> state" where
  "init base_path file_name s =
     emit (Console (ConfigFilePath (path_join base_path file_name)))
       (s\<lparr>file_path := path_join base_path file_name,
          config := JDict [], configSite := JDict [], cache := []\<rparr>)"

definition default_url :: string where
  "default_url = ''https://raw.githubusercontent.com/Arrowar/StreamingCommunity/refs/heads/main/config.json''"

definition api_url :: string where
  "api_url = ''https://api.npoint.io/e67633acc3816cc70132''"

definition download_requirements ::
  "pyenv \<Rightarrow> string \<Rightarrow> string \<Rightarrow> state \<Rightarrow> (raised + unit) \<times> state" where
  "download_requirements E url filename s =
     try_except
       (let s1 = emit (LogInfo (Downloading filename url)) s
        in case http_get E url of
             Inl e \<Rightarrow> (Inl (Exception e), s1)
           | Inr r \<Rightarrow>
               if status_code r = 200 then
                 (case open_write filename (content r) s1 of
                    Inl e \<Rightarrow> (Inl (Exception e), s1)
                  | Inr s2 \<Rightarrow> (Inr (), emit (Console (DownloadOk filename)) s2))
               else
                 (Inl (SystemExit 0),
                  emit (LogError (DownloadFailedStatus filename (status_code r))) s1))
       (\<lambda>e s'. (Inl (SystemExit 0), emit (LogError (DownloadFailed filename e)) s'))"

definition update_site_config :: "pyenv \<Rightarrow> state \<Rightarrow> (raised + unit) \<times> state" where
  "update_site_config E s =
     try_except
       (let s1 = emit (Console FetchingSite) s
        in case http_get E api_url of
             Inl e \<Rightarrow> (Inl (Exception e), s1)
           | Inr r \<Rightarrow>
               if status_code r = 200 then
                 (case json_body r of
                    Inl e \<Rightarrow> (Inl (Exception e), s1)
                  | Inr j \<Rightarrow> (Inr (), emit (Console SiteFetched) (s1\<lparr>configSite := j\<rparr>)))
               else (Inr (), emit (Console (SiteFailedStatus (status_code r))) s1))
       (\<lambda>e s'. (Inr (), emit (Console (SiteError e)) s'))"

text \<open>\<^verbatim>\<open>with open(self.file_path, 'r') as f: self.config = json.load(f)\<close>\<close>

definition load_file :: "pyenv \<Rightarrow> state \<Rightarrow> (raised + unit) \<times> state" where
  "load_file E s =
     (case open_read (file_path s) s of
        Inl e \<Rightarrow> (Inl (Exception e), s)
      | Inr text \<Rightarrow>
          (case json_loads E text of
             Inl e \<Rightarrow> (Inl (Exception e), s)
           | Inr j \<Rightarrow> (Inr (), s\<lparr>config := j\<rparr>)))"

text \<open>Sequencing: the second step runs when the first returned.\<close>

definition andthen ::
  "(raised + unit) \<times> state \<Rightarrow> (state \<Rightarrow> (raised + unit) \<times> state) \<Rightarrow> (raised + unit) \<times> state" where
  "andthen r f = (case r of (Inl x, s) \<Rightarrow> (Inl x, s) | (Inr u, s) \<Rightarrow> f s)"

definition say :: "event \<Rightarrow> state \<Rightarrow> (raised + unit) \<times> state" where
  "say e s = (Inr (), emit e s)"

definition read_config :: "pyenv \<Rightarrow> state \<Rightarrow> (raised + unit) \<times> state" where
  "read_config E s =
     try_except
       (let s1 = emit (LogInfo (ReadingFile (file_path s))) s
        in andthen
             (if path_exists (file_path s1) s1 then
                andthen (load_file E s1) (say (Console ConfigLoaded))
              else
                andthen (say (Console ConfigNotFoundDownloading) s1) (\<lambda>s2.
                andthen (download_requirements E default_url (file_path s2) s2) (\<lambda>s3.
                andthen (load_file E s3) (say (Console ConfigDownloaded)))))
             (\<lambda>s4. andthen (update_site_config E s4) (say (Console ProcessingComplete))))
       (\<lambda>e s'. (Inr (), emit (LogError (ErrorReadingConfig e)) s'))"

definition write_config :: "pyenv \<Rightarrow> state \<Rightarrow> (raised + unit) \<times> state" where
  "write_config E s =
     try_except
       (case open_write (file_path s) (json_dumps E (config s)) s of
          Inl e \<Rightarrow> (Inl (Exception e), s)
        | Inr s' \<Rightarrow> (Inr (), s'))
       (\<lambda>e s'. (Inr (), emit (Print (ErrorWriting e)) s'))"

text \<open>The request failed: it raised, or the status of the response is not 200.\<close>

definition fetch_failed :: "pyenv \<Rightarrow> string \<Rightarrow> bool" where
  "fetch_failed E url =
     (case http_get E url of Inl e \<Rightarrow> True | Inr r \<Rightarrow> status_code r \<noteq> 200)"

section \<open>The shape of a store\<close>

text \<open>
  A store is meant to be a mapping from section names to mappings from key names to
  values. \<open>stored\<close> is the value at \<open>store[section][key]\<close> of such a store,
  \<open>absent\<close> says that the store is a mapping in which the section is missing, or is a
  mapping in which the key is missing, and \<open>section_ok\<close> says that the store is a
  mapping in which the section is missing or is a mapping.
\<close>

definition stored :: "json \<Rightarrow> string \<Rightarrow> string \<Rightarrow> json option" where
  "stored store section key =
     (case store of
        JDict d \<Rightarrow> (case map_of d section of Some (JDict m) \<Rightarrow> map_of m key | _ \<Rightarrow> None)
      | _ \<Rightarrow> None)"

definition absent :: "json \<Rightarrow> string \<Rightarrow> string \<Rightarrow> bool" where
  "absent store section key =
     (case store of
        JDict d \<Rightarrow>
          (case map_of d section of
             None \<Rightarrow> True
           | Some (JDict m) \<Rightarrow> map_of m key = None
           | Some _ \<Rightarrow> False)
      | _ \<Rightarrow> False)"

definition section_ok :: "json \<Rightarrow> string \<Rightarrow> bool" where
  "section_ok store section =
     (case store of
        JDict d \<Rightarrow> (case map_of d section of None \<Rightarrow> True | Some (JDict m) \<Rightarrow> True | Some _ \<Rightarrow> False)
      | _ \<Rightarrow> False)"

text \<open>The entries of a section, none when the section is missing.\<close>

definition entries :: "json \<Rightarrow> string \<Rightarrow> (string \<times> json) list" where
  "entries store section =
     (case store of
        JDict d \<Rightarrow> (case map_of d section of Some (JDict m) \<Rightarrow> m | _ \<Rightarrow> [])
      | _ \<Rightarrow> [])"

definition sections :: "json \<Rightarrow> (string \<times> json) list" where
  "sections store = (case store of JDict d \<Rightarrow> d | _ \<Rightarrow> [])"

section \<open>Vocabulary of the properties\<close>

text \<open>
  The values that \<^verbatim>\<open>bool\<close> sends to \<^verbatim>\<open>False\<close>: \<^verbatim>\<open>None\<close>, \<^verbatim>\<open>False\<close>, the
  zeros, the empty string and the empty containers.
\<close>

definition falsy :: "json \<Rightarrow> bool" where
  "falsy v \<longleftrightarrow> v \<in> set [JNull, JBool False, JInt 0, JFloat (Finite 0), JStr [], JList [], JDict []]"

text \<open>\<^verbatim>\<open>sep.join(parts)\<close>, the inverse of splitting.\<close>

fun join :: "string \<Rightarrow> string list \<Rightarrow> string" where
  "join sep [] = []"
| "join sep [x] = x"
| "join sep (x # y # ys) = x @ sep @ join sep (y # ys)"

text \<open>The number that a sequence of decimal digits denotes.\<close>

definition decimal :: "string \<Rightarrow> int" where
  "decimal ds = foldl (\<lambda>a c. 10 * a + digit_val c) 0 ds"

text \<open>The line reporting a failed request, for the site data and for the download.\<close>

definition site_failure :: "pyenv \<Rightarrow> msg" where
  "site_failure E =
     (case http_get E api_url of
        Inl e \<Rightarrow> SiteError e
      | Inr r \<Rightarrow> SiteFailedStatus (status_code r))"

definition download_failure :: "pyenv \<Rightarrow> string \<Rightarrow> string \<Rightarrow> msg" where
  "download_failure E url filename =
     (case http_get E url of
        Inl e \<Rightarrow> DownloadFailed filename e
      | Inr r \<Rightarrow> DownloadFailedStatus filename (status_code r))"

text \<open>A manager as constructed, with one section in the main store, for the examples.\<close>

definition example :: state where
  "example =
     \<lparr>file_path = ''config.json'',
      config = JDict [(''General'', JDict [(''x'', JStr ''false'')])],
      configSite = JDict [],
      cache = [],
      files = Map.empty,
      denied = {},
      out = []\<rparr>"

text \<open>
  The text that \<^verbatim>\<open>json.dump(_, f, indent=4)\<close> writes for the main store of
  \<open>example\<close>: five lines, with \<open>CHR 0x0A\<close> the line feed and \<open>CHR 0x22\<close> the
  double quote.
\<close>

definition example_text :: string where
  "example_text =
     ''{'' @ [CHR 0x0A]
     @ ''    '' @ [CHR 0x22] @ ''General'' @ [CHR 0x22] @ '': {'' @ [CHR 0x0A]
     @ ''        '' @ [CHR 0x22] @ ''x'' @ [CHR 0x22] @ '': '' @ [CHR 0x22] @ ''false'' @ [CHR 0x22] @ [CHR 0x0A]
     @ ''    }'' @ [CHR 0x0A]
     @ ''}''"

text \<open>
  Two surroundings. In \<open>online\<close> the site endpoint answers 200 with a document and
  every other URL answers 404; in \<open>offline\<close> every request raises. In both, the codec
  maps the main store of \<open>example\<close> to \<open>example_text\<close> and back.
\<close>

definition example_codec_loads :: "string \<Rightarrow> exc + json" where
  "example_codec_loads text =
     (if text = example_text then Inr (JDict [(''General'', JDict [(''x'', JStr ''false'')])])
      else Inl JSONDecodeError)"

definition example_codec_dumps :: "json \<Rightarrow> string" where
  "example_codec_dumps j =
     (if j = JDict [(''General'', JDict [(''x'', JStr ''false'')])] then example_text else [])"

definition online :: pyenv where
  "online =
     \<lparr>http_get = (\<lambda>url.
         if url = api_url then
           Inr \<lparr>status_code = 200, content = ''{}'', json_body = Inr (JDict [(''site'', JDict [])])\<rparr>
         else Inr \<lparr>status_code = 404, content = [], json_body = Inl JSONDecodeError\<rparr>),
       json_loads = example_codec_loads,
       json_dumps = example_codec_dumps\<rparr>"

definition offline :: pyenv where
  "offline =
     \<lparr>http_get = (\<lambda>url. Inl RequestException),
       json_loads = example_codec_loads,
       json_dumps = example_codec_dumps\<rparr>"

section \<open>Properties of the lookup and of the setter\<close>

lemma config_source_emit: "config_source from_site (emit e s) = config_source from_site s"
  by (simp add: config_source_def emit_def)

lemma cache_emit: "cache (emit e s) = cache s"
  by (simp add: emit_def)

lemma lookup_value_stored:
  "stored store section key = Some value \<Longrightarrow> lookup_value store section key from_site = Inr value"
  by (auto simp: stored_def lookup_value_def split: json.splits option.splits)

lemma lookup_value_absent:
  assumes "absent store section key"
  shows "lookup_value store section key from_site = Inl (key_not_found key section from_site)"
proof (cases store)
  case (JDict d)
  show ?thesis
  proof (cases "map_of d section")
    case None
    with JDict show ?thesis by (simp add: lookup_value_def)
  next
    case (Some sec)
    with JDict assms show ?thesis
      by (cases sec) (simp_all add: absent_def lookup_value_def)
  qed
qed (use assms in \<open>simp_all add: absent_def\<close>)

text \<open>A miss in the cache on a key that the store holds: convert, cache, return.\<close>

lemma read_key_miss_found:
  assumes "map_of (cache s) (cache_key from_site section key) = None"
    and "stored (config_source from_site s) section key = Some value"
  shows "read_key section key data_type from_site s =
           (case convert_to_data_type value data_type of
              Inl e \<Rightarrow> (Inl e, emit (LogInfo (ReadKey (cache_key from_site section key))) s)
            | Inr v \<Rightarrow> (Inr v, (emit (LogInfo (ReadKey (cache_key from_site section key))) s)
                        \<lparr>cache := AList.update (cache_key from_site section key) v (cache s)\<rparr>))"
  using assms(1) lookup_value_stored[OF assms(2), of from_site]
  by (simp add: read_key_def Let_def config_source_emit cache_emit split: sum.splits)

lemma set_key_body_ok:
  "section_ok target section \<Longrightarrow>
     set_key_body target cch section key value to_site =
       Inr (JDict (AList.update section (JDict (AList.update key value (entries target section)))
                     (sections target)),
            AList.update (cache_key to_site section key) value cch)"
  by (auto simp: set_key_body_def section_ok_def entries_def sections_def update_conv'
           split: json.splits option.splits)

lemma stored_after_update:
  "stored (JDict (AList.update section (JDict (AList.update key value m)) d)) section key = Some value"
  by (simp add: stored_def update_conv')

text \<open>
  C1. When the composite key is in the cache, \<open>read_key\<close> returns the cached value
  whatever \<open>data_type\<close> is requested; the only effect is the log line, and the
  result is the same whatever the two stores hold, since neither is read.
\<close>

theorem read_key_cache_hit:
  assumes "map_of (cache s) (cache_key from_site section key) = Some v"
  shows "read_key section key data_type from_site s
           = (Inr v, emit (LogInfo (ReadKey (cache_key from_site section key))) s)
       \<and> fst (read_key section key data_type from_site (s\<lparr>config := c, configSite := cs\<rparr>)) = Inr v"
  using assms by (simp add: read_key_def emit_def Let_def)

theorem read_key_cache_hit_witness:
  "map_of (cache (example\<lparr>cache := [(''config.General.x'', JBool True)]\<rparr>))
       (cache_key False ''General'' ''x'') = Some (JBool True)
   \<and> fst (read_key ''General'' ''x'' T_int False
            (example\<lparr>cache := [(''config.General.x'', JBool True)]\<rparr>)) = Inr (JBool True)"
  using read_key_cache_hit
          [of "example\<lparr>cache := [(''config.General.x'', JBool True)]\<rparr>" False
              "''General''" "''x''" "JBool True" T_int]
  by (simp add: cache_key_def origin_def)

text \<open>
  The value cached by a first successful read is what every later read of the same
  section and key returns, whatever type the later read asks for.
\<close>

lemma read_key_first_conversion_wins:
  assumes "read_key section key dt1 from_site s = (Inr v, s1)"
  shows "read_key section key dt2 from_site s1
           = (Inr v, emit (LogInfo (ReadKey (cache_key from_site section key))) s1)"
proof -
  from assms have "map_of (cache s1) (cache_key from_site section key) = Some v"
    by (auto simp: read_key_def Let_def cache_emit update_conv'
             split: option.splits sum.splits)
  then show ?thesis
    by (simp add: read_key_def emit_def Let_def)
qed

text \<open>
  C2. On a miss in the cache, when the selected store is a mapping in which the
  section is missing, or is a mapping in which the key is missing, \<open>read_key\<close> (and so
  every getter) hands the \<open>ValueError\<close> of line 132 to its caller; the state after the
  call differs from the state before by the log line only, so both stores and the cache
  are as they were.
\<close>

theorem read_key_missing:
  assumes "map_of (cache s) (cache_key from_site section key) = None"
    and "absent (config_source from_site s) section key"
  shows "read_key section key data_type from_site s
           = (Inl (key_not_found key section from_site),
              emit (LogInfo (ReadKey (cache_key from_site section key))) s)
       \<and> config (snd (read_key section key data_type from_site s)) = config s
       \<and> configSite (snd (read_key section key data_type from_site s)) = configSite s
       \<and> cache (snd (read_key section key data_type from_site s)) = cache s"
  using assms(1) lookup_value_absent[OF assms(2), of from_site]
  by (simp add: read_key_def Let_def config_source_emit cache_emit) (simp add: emit_def)

theorem read_key_missing_witness:
  "absent (config_source False example) ''General'' ''y''
   \<and> absent (config_source True example) ''General'' ''x''
   \<and> fst (read_key ''General'' ''y'' T_str False example)
       = Inl (key_not_found ''y'' ''General'' False)
   \<and> fst (read_key ''General'' ''x'' T_int True example)
       = Inl (key_not_found ''x'' ''General'' True)
   \<and> config (snd (read_key ''General'' ''y'' T_str False example)) = config example"
proof -
  have c1: "map_of (cache example) (cache_key False ''General'' ''y'') = None"
    and c2: "map_of (cache example) (cache_key True ''General'' ''x'') = None"
    by (simp_all add: example_def)
  have a1: "absent (config_source False example) ''General'' ''y''"
    and a2: "absent (config_source True example) ''General'' ''x''"
    by (simp_all add: example_def absent_def config_source_def)
  from read_key_missing[OF c1 a1, of T_str] read_key_missing[OF c2 a2, of T_int] a1 a2
  show ?thesis by (simp add: emit_def)
qed

text \<open>
  C3. When the main store is a mapping in which the section is missing or is itself a
  mapping, \<open>set_key\<close> puts the value at \<open>store[section][key]\<close> (the section is
  created when missing, every other entry is kept) and puts the same value, unconverted,
  into the cache under the composite key; the \<open>get\<close> that follows returns that value,
  and neither call changes a file.
\<close>

theorem set_key_then_get:
  assumes "section_ok (config s) section"
  shows "config (set_key section key value False s) =
           JDict (AList.update section (JDict (AList.update key value (entries (config s) section)))
                    (sections (config s)))
       \<and> stored (config (set_key section key value False s)) section key = Some value
       \<and> map_of (cache (set_key section key value False s)) (cache_key False section key) = Some value
       \<and> fst (get section key (set_key section key value False s)) = Inr value
       \<and> files (set_key section key value False s) = files s
       \<and> files (snd (get section key (set_key section key value False s))) = files s"
  using set_key_body_ok[OF assms, of "cache s" key "value" False]
  by (simp add: set_key_def config_source_def stored_after_update update_conv' get_def
                read_key_def Let_def emit_def)

theorem set_key_then_get_witness:
  "section_ok (config example) ''General''
   \<and> section_ok (config example) ''Other''
   \<and> fst (get ''General'' ''x'' (set_key ''General'' ''x'' (JInt 5) False example)) = Inr (JInt 5)
   \<and> config (set_key ''Other'' ''k'' JNull False example)
       = JDict [(''General'', JDict [(''x'', JStr ''false'')]), (''Other'', JDict [(''k'', JNull)])]"
  using set_key_then_get[of example "''General''" "''x''" "JInt 5"]
        set_key_then_get[of example "''Other''" "''k''" JNull]
  by (simp add: example_def section_ok_def entries_def sections_def)

text \<open>
  Outside that shape the assignment raises inside the \<^verbatim>\<open>try\<close>: the error is
  printed and neither the store nor the cache is changed.
\<close>

lemma set_key_on_non_mapping_section:
  assumes "config s = JDict d" and "map_of d section = Some (JStr t)"
  shows "set_key section key value False s
           = emit (Print (ErrorSettingKey key section False TypeError)) s"
  using assms by (simp add: set_key_def set_key_body_def config_source_def)

section \<open>The built-in operations are the ones meant\<close>

text \<open>Splitting cuts at every separator and nowhere else; joining undoes it.\<close>

lemma split_on_nonempty: "split_on sep cur s \<noteq> []"
  by (induction s arbitrary: cur) auto

lemma join_Cons: "ys \<noteq> [] \<Longrightarrow> join sep (x # ys) = x @ sep @ join sep ys"
  by (cases ys) auto

lemma split_on_join: "join [sep] (split_on sep cur s) = rev cur @ s"
  by (induction s arbitrary: cur) (auto simp: join_Cons split_on_nonempty)

lemma split_comma_join: "join '','' (split_comma s) = s"
  by (simp add: split_comma_def split_on_join)

lemma split_on_no_sep:
  "sep \<notin> set cur \<Longrightarrow> \<forall>p\<in>set (split_on sep cur s). sep \<notin> set p"
proof (induction s arbitrary: cur)
  case Nil
  then show ?case by simp
next
  case (Cons c cs)
  show ?case
  proof (cases "c = sep")
    case True
    with Cons.prems Cons.IH[of "[]"] show ?thesis by simp
  next
    case False
    with Cons.prems Cons.IH[of "c # cur"] show ?thesis by simp
  qed
qed

lemma split_comma_no_comma: "p \<in> set (split_comma s) \<Longrightarrow> CHR '','' \<notin> set p"
  using split_on_no_sep[of "CHR '',''" "[]" s] by (simp add: split_comma_def)

lemma split_comma_length: "length (split_comma s) = Suc (count_list s (CHR '',''))"
proof -
  have "length (split_on sep cur s) = Suc (count_list s sep)" for sep cur
    by (induction s arbitrary: cur) auto
  then show ?thesis by (simp add: split_comma_def)
qed

text \<open>
  Stripping removes white space at both ends and nothing else: what is left neither
  starts nor ends with white space.
\<close>

lemma rev_drop_take: "rev (dropWhile P xs) @ rev (takeWhile P xs) = rev xs"
  by (metis rev_append takeWhile_dropWhile_id)

lemma strip_tail:
  "dropWhile isspace s = strip s @ rev (takeWhile isspace (rev (dropWhile isspace s)))"
  using rev_drop_take[of isspace "rev (dropWhile isspace s)"] by (simp add: strip_def)

lemma strip_decomp:
  "\<exists>a b. s = a @ strip s @ b \<and> (\<forall>c\<in>set a. isspace c) \<and> (\<forall>c\<in>set b. isspace c)"
proof -
  let ?a = "takeWhile isspace s"
  let ?b = "rev (takeWhile isspace (rev (dropWhile isspace s)))"
  have "s = ?a @ dropWhile isspace s" by simp
  with strip_tail[of s] have "s = ?a @ strip s @ ?b" by simp
  moreover have "\<forall>c\<in>set ?a. isspace c"
    by (auto dest: set_takeWhileD)
  moreover have "\<forall>c\<in>set ?b. isspace c"
    by (auto dest: set_takeWhileD)
  ultimately show ?thesis by blast
qed

lemma strip_ends:
  assumes "strip s \<noteq> []"
  shows "\<not> isspace (hd (strip s)) \<and> \<not> isspace (last (strip s))"
proof -
  let ?t = "dropWhile isspace s"
  let ?u = "dropWhile isspace (rev ?t)"
  from assms have u: "?u \<noteq> []" by (simp add: strip_def)
  then have "\<not> isspace (hd ?u)" by (rule hd_dropWhile)
  with u have l: "\<not> isspace (last (strip s))" by (simp add: strip_def last_rev)
  from assms strip_tail[of s] have t: "?t \<noteq> []" by (metis append_is_Nil_conv)
  then have "\<not> isspace (hd ?t)" by (rule hd_dropWhile)
  moreover from assms strip_tail[of s] have "hd ?t = hd (strip s)"
    by (metis hd_append2)
  ultimately show ?thesis using l by simp
qed

lemma trim_pad:
  assumes "\<forall>c\<in>set a. P c" and "\<forall>c\<in>set b. P c"
    and "x \<noteq> []" and "\<not> P (hd x)" and "\<not> P (last x)"
  shows "rev (dropWhile P (rev (dropWhile P (a @ x @ b)))) = x"
proof -
  from assms(3,4) have "dropWhile P (x @ b) = x @ b"
    by (cases x) auto
  moreover from assms(1) have "dropWhile P (a @ x @ b) = dropWhile P (x @ b)"
    by (intro dropWhile_append2) auto
  ultimately have 1: "dropWhile P (a @ x @ b) = x @ b" by simp
  from assms(3,5) have "dropWhile P (rev x) = rev x"
    by (cases x rule: rev_cases) auto
  moreover from assms(2) have "dropWhile P (rev b @ rev x) = dropWhile P (rev x)"
    by (intro dropWhile_append2) auto
  ultimately have "dropWhile P (rev b @ rev x) = rev x" by simp
  with 1 show ?thesis by simp
qed

lemma strip_pad:
  assumes "\<forall>c\<in>set a. isspace c" and "\<forall>c\<in>set b. isspace c"
    and "x \<noteq> []" and "\<not> isspace (hd x)" and "\<not> isspace (last x)"
  shows "strip (a @ x @ b) = x"
  unfolding strip_def using assms by (rule trim_pad)

lemma int_strip_pad:
  assumes "\<forall>c\<in>set a. int_space c" and "\<forall>c\<in>set b. int_space c"
    and "x \<noteq> []" and "\<not> int_space (hd x)" and "\<not> int_space (last x)"
  shows "int_strip (a @ x @ b) = x"
  unfolding int_strip_def using assms by (rule trim_pad)

text \<open>
  A non-empty sequence of at most 4300 decimal digits, with an optional sign in front
  and white space around, reads as the integer it denotes.
\<close>

lemma scan_digits_decimal:
  "\<forall>c\<in>set ds. isdigit c \<Longrightarrow> ds \<noteq> [] \<or> prev \<or> n = 0 \<Longrightarrow>
     scan_digits acc n prev ds
       = Some (foldl (\<lambda>a c. 10 * a + digit_val c) acc ds, n + length ds, [])"
  by (induction ds arbitrary: acc n prev) auto

lemma isdigit_not_space: "isdigit c \<Longrightarrow> \<not> int_space c"
  by (auto simp: isdigit_def int_space_def)

lemma int_of_str_decimal:
  assumes "\<forall>c\<in>set a. int_space c" and "\<forall>c\<in>set b. int_space c"
    and "ds \<noteq> []" and "\<forall>c\<in>set ds. isdigit c" and "length ds \<le> max_str_digits"
  shows "int_of_str (a @ ds @ b) = Inr (decimal ds)"
    and "int_of_str (a @ ''+'' @ ds @ b) = Inr (decimal ds)"
    and "int_of_str (a @ ''-'' @ ds @ b) = Inr (- decimal ds)"
proof -
  from assms(3,4) have "isdigit (hd ds)" "isdigit (last ds)"
    by simp_all
  then have e: "\<not> int_space (hd ds)" "\<not> int_space (last ds)"
    by (simp_all add: isdigit_not_space)
  from assms(3,4) have h: "hd ds \<noteq> CHR ''-''" "hd ds \<noteq> CHR ''+''"
    by (cases ds; auto simp: isdigit_def)+
  have p: "scan_digits 0 0 False ds = Some (decimal ds, length ds, [])"
    using scan_digits_decimal[of ds False 0 0] assms(3,4) by (simp add: decimal_def)
  from int_strip_pad[OF assms(1,2,3) e] assms(3,5) h p
  show "int_of_str (a @ ds @ b) = Inr (decimal ds)"
    by (simp add: int_of_str_def Let_def)
  have "int_strip (a @ (''+'' @ ds) @ b) = ''+'' @ ds"
    using assms(1,2,3) e by (intro int_strip_pad) (auto simp: int_space_def)
  with p assms(3,5) show "int_of_str (a @ ''+'' @ ds @ b) = Inr (decimal ds)"
    by (simp add: int_of_str_def Let_def)
  have "int_strip (a @ (''-'' @ ds) @ b) = ''-'' @ ds"
    using assms(1,2,3) e by (intro int_strip_pad) (auto simp: int_space_def)
  with p assms(3,5) show "int_of_str (a @ ''-'' @ ds @ b) = Inr (- decimal ds)"
    by (simp add: int_of_str_def Let_def)
qed

text \<open>
  Text that is not such a literal is refused, a fraction included; so is a digit
  behind one of the separators that \<^verbatim>\<open>strip\<close> removes and \<^verbatim>\<open>int\<close> does not.
\<close>

lemma int_of_str_examples:
  "int_of_str ''42'' = Inr 42"
  "int_of_str '' -7 '' = Inr (- 7)"
  "int_of_str ''1_000'' = Inr 1000"
  "int_of_str ''abc''
     = Inl (''invalid literal for int() with base 10: '' @ [CHR 0x27] @ ''abc'' @ [CHR 0x27])"
  "int_of_str ''3.5''
     = Inl (''invalid literal for int() with base 10: '' @ [CHR 0x27] @ ''3.5'' @ [CHR 0x27])"
  "int_of_str [CHR 0x1C, CHR ''5'']
     = Inl (''invalid literal for int() with base 10: ''
            @ [CHR 0x27, CHR 0x5C] @ ''x1c5'' @ [CHR 0x27])"
  "int_of_str [] = Inl (''invalid literal for int() with base 10: '' @ [CHR 0x27, CHR 0x27])"
  by (simp_all add: int_of_str_def int_strip_def int_space_def isdigit_def digit_val_def Let_def
                    max_str_digits_def invalid_literal_def py_repr_def repr_char_def
                    printable_def hex_digit_def)

lemma py_bool_falsy: "py_bool v \<longleftrightarrow> \<not> falsy v"
  by (cases v) (auto simp: falsy_def)

section \<open>Conversions on a cache miss\<close>

text \<open>
  C4. On a miss in the cache, the boolean getter of either store returns
  \<^verbatim>\<open>False\<close> on null, on false, on the zeros, on the empty string and on the empty
  containers, and \<^verbatim>\<open>True\<close> on every other value: on every non-empty string (the
  string \<^verbatim>\<open>"false"\<close> among them), every non-zero number and every non-empty container.
\<close>

theorem get_bool_truthiness:
  assumes "map_of (cache s) (cache_key from_site section key) = None"
    and "stored (config_source from_site s) section key = Some value"
  shows "fst ((if from_site then get_site_bool else get_bool) section key s)
           = Inr (JBool (\<not> falsy value))"
  using read_key_miss_found[OF assms, of T_bool]
  by (cases from_site)
     (simp_all add: get_bool_def get_site_bool_def convert_to_data_type_def py_bool_falsy)

theorem get_bool_truthiness_witness:
  "map_of (cache example) (cache_key False ''General'' ''x'') = None
   \<and> stored (config_source False example) ''General'' ''x'' = Some (JStr ''false'')
   \<and> fst (get_bool ''General'' ''x'' example) = Inr (JBool True)"
proof -
  have c: "map_of (cache example) (cache_key False ''General'' ''x'') = None"
    by (simp add: example_def)
  have v: "stored (config_source False example) ''General'' ''x'' = Some (JStr ''false'')"
    by (simp add: example_def stored_def config_source_def)
  from get_bool_truthiness[OF c v] c v show ?thesis by (simp add: falsy_def)
qed

text \<open>
  C5. On a miss in the cache, the list getter of either store returns a list as it
  is, and returns for a string the pieces between its commas, in order, each stripped
  of the white space around it; any other value has no \<^verbatim>\<open>split\<close> and the call
  raises. The string \<^verbatim>\<open>"a, b,c"\<close> gives \<^verbatim>\<open>["a", "b", "c"]\<close>.
\<close>

theorem get_list_splits:
  assumes "map_of (cache s) (cache_key from_site section key) = None"
    and "stored (config_source from_site s) section key = Some value"
  shows "fst ((if from_site then get_site_list else get_list) section key s)
           = (case value of
                JList xs \<Rightarrow> Inr (JList xs)
              | JStr str \<Rightarrow> Inr (JList (map (\<lambda>item. JStr (strip item)) (split_comma str)))
              | _ \<Rightarrow> Inl AttributeError)"
  using read_key_miss_found[OF assms, of T_list]
  by (cases from_site)
     (simp_all add: get_list_def get_site_list_def convert_to_data_type_def split: json.splits)

theorem get_list_splits_witness:
  "stored (config_source False (example\<lparr>config := JDict [(''S'', JDict [(''l'', JStr ''a, b,c'')])]\<rparr>))
       ''S'' ''l'' = Some (JStr ''a, b,c'')
   \<and> fst (get_list ''S'' ''l'' (example\<lparr>config := JDict [(''S'', JDict [(''l'', JStr ''a, b,c'')])]\<rparr>))
       = Inr (JList [JStr ''a'', JStr ''b'', JStr ''c''])
   \<and> stored (config_source True (example\<lparr>configSite := JDict [(''S'', JDict [(''l'', JList [JInt 1])])]\<rparr>))
       ''S'' ''l'' = Some (JList [JInt 1])
   \<and> fst (get_site_list ''S'' ''l'' (example\<lparr>configSite := JDict [(''S'', JDict [(''l'', JList [JInt 1])])]\<rparr>))
       = Inr (JList [JInt 1])"
proof -
  let ?s = "example\<lparr>config := JDict [(''S'', JDict [(''l'', JStr ''a, b,c'')])]\<rparr>"
  let ?t = "example\<lparr>configSite := JDict [(''S'', JDict [(''l'', JList [JInt 1])])]\<rparr>"
  have c: "map_of (cache ?s) (cache_key False ''S'' ''l'') = None"
    and d: "map_of (cache ?t) (cache_key True ''S'' ''l'') = None"
    by (simp_all add: example_def)
  have v: "stored (config_source False ?s) ''S'' ''l'' = Some (JStr ''a, b,c'')"
    and w: "stored (config_source True ?t) ''S'' ''l'' = Some (JList [JInt 1])"
    by (simp_all add: stored_def config_source_def)
  from get_list_splits[OF c v] get_list_splits[OF d w] v w show ?thesis
    by (simp add: split_comma_def strip_def isspace_def)
qed

text \<open>
  C6, as written, fails on the code. The stored string \<^verbatim>\<open>"3.5"\<close> is the text of a
  number, and the integer getter raises on it; the stored boolean \<^verbatim>\<open>true\<close> is not a
  number, and the integer getter returns 1 for it.
\<close>

theorem get_int_counterexample:
  "fst (get_int ''S'' ''n''
         (example\<lparr>config := JDict [(''S'', JDict [(''n'', JStr ''3.5''), (''b'', JBool True)])]\<rparr>))
     = Inl (ValueError (''invalid literal for int() with base 10: '' @ [CHR 0x27] @ ''3.5'' @ [CHR 0x27]))
   \<and> fst (get_int ''S'' ''b''
         (example\<lparr>config := JDict [(''S'', JDict [(''n'', JStr ''3.5''), (''b'', JBool True)])]\<rparr>))
     = Inr (JInt 1)"
  by (simp add: get_int_def read_key_def Let_def example_def emit_def cache_key_def origin_def
                config_source_def lookup_value_def convert_to_data_type_def
                int_of_str_def int_strip_def int_space_def isdigit_def digit_val_def
                max_str_digits_def invalid_literal_def py_repr_def repr_char_def
                printable_def hex_digit_def)

text \<open>
  C6, amended. On a miss in the cache, the integer getter of either store applies
  \<^verbatim>\<open>int\<close> to the stored value. A string gives the integer it denotes when it is an
  integer literal (white space around, an optional sign, decimal digits, single
  underscores between digits allowed, at most 4300 digits), and otherwise the call
  fails with the \<open>ValueError\<close> whose message \<open>int_of_str\<close> gives; the text of a
  fraction is not an integer literal. Null, a list and a mapping make the call fail
  with a \<open>TypeError\<close>. An integer is returned as it is, a boolean as 0 or 1, a finite
  float truncated towards zero; an infinite float and a NaN make the call fail.
\<close>

theorem get_int_parses:
  assumes "map_of (cache s) (cache_key from_site section key) = None"
    and "stored (config_source from_site s) section key = Some value"
  shows "fst ((if from_site then get_site_int else get_int) section key s)
           = (case value of
                JStr str \<Rightarrow>
                  (case int_of_str str of
                     Inr n \<Rightarrow> Inr (JInt n)
                   | Inl m \<Rightarrow> Inl (ValueError m))
              | JInt n \<Rightarrow> Inr (JInt n)
              | JBool b \<Rightarrow> Inr (JInt (if b then 1 else 0))
              | JFloat f \<Rightarrow>
                  (case f of
                     Finite q \<Rightarrow> Inr (JInt (if 0 \<le> q then \<lfloor>q\<rfloor> else \<lceil>q\<rceil>))
                   | NaN \<Rightarrow> Inl (ValueError ''cannot convert float NaN to integer'')
                   | _ \<Rightarrow> Inl OverflowError)
              | _ \<Rightarrow> Inl TypeError)"
  using read_key_miss_found[OF assms, of T_int]
  by (cases from_site)
     (simp_all add: get_int_def get_site_int_def convert_to_data_type_def
           split: json.splits pyfloat.splits sum.splits)

theorem get_int_parses_witness:
  "stored (config_source False (example\<lparr>config := JDict [(''S'', JDict [(''n'', JStr ''42''), (''w'', JStr ''abc'')])]\<rparr>))
       ''S'' ''n'' = Some (JStr ''42'')
   \<and> fst (get_int ''S'' ''n'' (example\<lparr>config := JDict [(''S'', JDict [(''n'', JStr ''42''), (''w'', JStr ''abc'')])]\<rparr>))
       = Inr (JInt 42)
   \<and> fst (get_int ''S'' ''w'' (example\<lparr>config := JDict [(''S'', JDict [(''n'', JStr ''42''), (''w'', JStr ''abc'')])]\<rparr>))
       = Inl (ValueError (''invalid literal for int() with base 10: '' @ [CHR 0x27] @ ''abc'' @ [CHR 0x27]))"
proof -
  let ?s = "example\<lparr>config := JDict [(''S'', JDict [(''n'', JStr ''42''), (''w'', JStr ''abc'')])]\<rparr>"
  have c: "map_of (cache ?s) (cache_key False ''S'' ''n'') = None"
    and d: "map_of (cache ?s) (cache_key False ''S'' ''w'') = None"
    by (simp_all add: example_def)
  have v: "stored (config_source False ?s) ''S'' ''n'' = Some (JStr ''42'')"
    and w: "stored (config_source False ?s) ''S'' ''w'' = Some (JStr ''abc'')"
    by (simp_all add: stored_def config_source_def)
  from get_int_parses[OF c v] get_int_parses[OF d w] v show ?thesis
    by (simp add: int_of_str_def int_strip_def int_space_def isdigit_def digit_val_def Let_def
                  max_str_digits_def invalid_literal_def py_repr_def repr_char_def
                  printable_def hex_digit_def)
qed

text \<open>
  C7. On a miss in the cache, a request for a float, for a mapping, or for any type
  other than integer, boolean, list and the type of \<^verbatim>\<open>None\<close> returns the stored value
  unchanged: nothing is parsed.
\<close>

theorem get_float_passes_through:
  assumes "map_of (cache s) (cache_key from_site section key) = None"
    and "stored (config_source from_site s) section key = Some value"
    and "data_type \<notin> {T_int, T_bool, T_list, T_NoneType}"
  shows "fst ((if from_site then get_site_float else get_float) section key s) = Inr value
       \<and> fst ((if from_site then get_site_dict else get_dict) section key s) = Inr value
       \<and> fst (read_key section key data_type from_site s) = Inr value
       \<and> convert_to_data_type value data_type = Inr value"
  using read_key_miss_found[OF assms(1,2), of T_float]
        read_key_miss_found[OF assms(1,2), of T_dict]
        read_key_miss_found[OF assms(1,2), of data_type] assms(3)
  by (cases from_site)
     (simp_all add: get_float_def get_site_float_def get_dict_def get_site_dict_def
                convert_to_data_type_def)

theorem get_float_passes_through_witness:
  "stored (config_source False example) ''General'' ''x'' = Some (JStr ''false'')
   \<and> T_other ''Path'' \<notin> {T_int, T_bool, T_list, T_NoneType}
   \<and> fst (get_float ''General'' ''x'' example) = Inr (JStr ''false'')
   \<and> fst (read_key ''General'' ''x'' (T_other ''Path'') False example) = Inr (JStr ''false'')"
proof -
  have c: "map_of (cache example) (cache_key False ''General'' ''x'') = None"
    by (simp add: example_def)
  have v: "stored (config_source False example) ''General'' ''x'' = Some (JStr ''false'')"
    by (simp add: example_def stored_def config_source_def)
  have t: "T_other ''Path'' \<notin> {T_int, T_bool, T_list, T_NoneType}"
    by simp
  from get_float_passes_through[OF c v t] v show ?thesis by simp
qed

section \<open>Fetching, downloading, loading and writing\<close>

lemma update_site_config_returns: "fst (update_site_config E s) = Inr ()"
  by (simp add: update_site_config_def try_except_def Let_def split: sum.splits)

lemma update_site_config_keeps:
  "config (snd (update_site_config E s)) = config s"
  "cache (snd (update_site_config E s)) = cache s"
  "files (snd (update_site_config E s)) = files s"
  "file_path (snd (update_site_config E s)) = file_path s"
  by (simp_all add: update_site_config_def try_except_def Let_def emit_def split: sum.splits)

lemma update_site_config_failed:
  assumes "fetch_failed E api_url"
  shows "update_site_config E s
           = (Inr (), emit (Console (site_failure E)) (emit (Console FetchingSite) s))"
proof (cases "http_get E api_url")
  case (Inl e)
  then show ?thesis
    by (simp add: update_site_config_def try_except_def Let_def site_failure_def)
next
  case (Inr r)
  with assms have "status_code r \<noteq> 200" by (simp add: fetch_failed_def)
  with Inr show ?thesis
    by (simp add: update_site_config_def try_except_def Let_def site_failure_def)
qed

lemma update_site_config_replaced:
  assumes "configSite (snd (update_site_config E s)) \<noteq> configSite s"
  shows "\<exists>r. http_get E api_url = Inr r \<and> status_code r = 200
             \<and> json_body r = Inr (configSite (snd (update_site_config E s)))"
  using assms
  by (auto simp: update_site_config_def try_except_def Let_def emit_def split: sum.splits if_splits)

lemma update_site_config_ok:
  assumes "http_get E api_url = Inr r" "status_code r = 200" "json_body r = Inr j"
  shows "update_site_config E s
           = (Inr (), emit (Console SiteFetched) ((emit (Console FetchingSite) s)\<lparr>configSite := j\<rparr>))"
  using assms by (simp add: update_site_config_def try_except_def Let_def)

lemma download_requirements_failed:
  assumes "fetch_failed E url"
  shows "download_requirements E url filename s
           = (Inl (SystemExit 0),
              emit (LogError (download_failure E url filename))
                (emit (LogInfo (Downloading filename url)) s))"
proof (cases "http_get E url")
  case (Inl e)
  then show ?thesis
    by (simp add: download_requirements_def try_except_def Let_def download_failure_def)
next
  case (Inr r)
  with assms have "status_code r \<noteq> 200" by (simp add: fetch_failed_def)
  with Inr show ?thesis
    by (simp add: download_requirements_def try_except_def Let_def download_failure_def)
qed

lemma download_requirements_returned:
  assumes "fst (download_requirements E url filename s) = Inr u"
  shows "\<exists>r. http_get E url = Inr r \<and> status_code r = 200
            \<and> files (snd (download_requirements E url filename s)) = (files s)(filename \<mapsto> content r)"
  using assms
  by (auto simp: download_requirements_def try_except_def Let_def open_write_def emit_def
           split: sum.splits if_splits)

lemma download_requirements_ok:
  assumes "http_get E url = Inr r" "status_code r = 200" "filename \<notin> denied s"
  shows "download_requirements E url filename s
           = (Inr (), emit (Console (DownloadOk filename))
                        ((emit (LogInfo (Downloading filename url)) s)
                           \<lparr>files := (files s)(filename \<mapsto> content r)\<rparr>))"
  using assms
  by (simp add: download_requirements_def try_except_def Let_def open_write_def emit_def)

text \<open>
  The exit raised by a failed download is not caught by the \<^verbatim>\<open>except Exception\<close>
  of \<open>read_config\<close> either.
\<close>

lemma read_config_exits:
  assumes "\<not> path_exists (file_path s) s" and "fetch_failed E default_url"
  shows "fst (read_config E s) = Inl (SystemExit 0)"
  using download_requirements_failed[OF assms(2)] assms(1)
  by (simp add: read_config_def try_except_def Let_def andthen_def say_def path_exists_def emit_def)

lemma write_config_ok:
  assumes "file_path s \<notin> denied s"
  shows "write_config E s = (Inr (), s\<lparr>files := (files s)(file_path s \<mapsto> json_dumps E (config s))\<rparr>)"
  using assms by (simp add: write_config_def try_except_def open_write_def)

lemma write_config_keeps:
  "fst (write_config E s) = Inr ()"
  "configSite (snd (write_config E s)) = configSite s"
  "config (snd (write_config E s)) = config s"
  "cache (snd (write_config E s)) = cache s"
  by (simp_all add: write_config_def try_except_def open_write_def emit_def)

text \<open>Loading a file that exists, opens and parses puts the parsed document in the main store.\<close>

lemma read_config_loads:
  assumes "file_path s \<notin> denied s" and "files s (file_path s) = Some text"
    and "json_loads E text = Inr j"
  shows "fst (read_config E s) = Inr ()" and "config (snd (read_config E s)) = j"
proof -
  let ?s1 = "emit (LogInfo (ReadingFile (file_path s))) s"
  let ?s2 = "emit (Console ConfigLoaded) (?s1\<lparr>config := j\<rparr>)"
  have l: "load_file E ?s1 = (Inr (), ?s1\<lparr>config := j\<rparr>)"
    using assms by (simp add: load_file_def open_read_def emit_def)
  have e: "path_exists (file_path ?s1) ?s1"
    using assms(2) by (simp add: path_exists_def emit_def)
  have r: "read_config E s =
             (Inr (), emit (Console ProcessingComplete) (snd (update_site_config E ?s2)))"
    using update_site_config_returns[of E ?s2]
    apply (simp add: read_config_def Let_def)
    apply (simp only: e l if_True)
    apply (cases "update_site_config E ?s2")
    apply (simp add: andthen_def say_def try_except_def)
    done
  show "fst (read_config E s) = Inr ()" by (simp add: r)
  show "config (snd (read_config E s)) = j"
    by (simp add: r update_site_config_keeps emit_def)
qed

text \<open>
  C8. \<open>write_config\<close> returns normally and leaves the site store as it was. When the
  path can be opened, the file at \<open>file_path\<close> then holds the serialized main store and
  no other file has changed. When moreover the parser maps that text back to the main
  store, a manager constructed anew on the same path and loaded has the main store that
  was written.
\<close>

theorem write_config_round_trip:
  "fst (write_config E s) = Inr ()
   \<and> configSite (snd (write_config E s)) = configSite s
   \<and> (file_path s \<notin> denied s \<longrightarrow>
        files (snd (write_config E s)) = (files s)(file_path s \<mapsto> json_dumps E (config s)))
   \<and> (file_path s \<notin> denied s
        \<and> json_loads E (json_dumps E (config s)) = Inr (config s)
        \<and> path_join base_path file_name = file_path s \<longrightarrow>
        config (snd (read_config E (init base_path file_name (snd (write_config E s))))) = config s)"
proof -
  let ?w = "snd (write_config E s)"
  let ?f = "init base_path file_name ?w"
  have "config (snd (read_config E ?f)) = config s"
    if w: "file_path s \<notin> denied s"
      and rt: "json_loads E (json_dumps E (config s)) = Inr (config s)"
      and p: "path_join base_path file_name = file_path s"
  proof -
    have "file_path ?f \<notin> denied ?f"
      using w p by (simp add: write_config_ok init_def emit_def)
    moreover have "files ?f (file_path ?f) = Some (json_dumps E (config s))"
      using w p by (simp add: write_config_ok init_def emit_def)
    ultimately show ?thesis
      using rt by (rule read_config_loads(2))
  qed
  then show ?thesis
    by (simp add: write_config_keeps write_config_ok)
qed

theorem write_config_round_trip_witness:
  "file_path example \<notin> denied example
   \<and> json_loads online (json_dumps online (config example)) = Inr (config example)
   \<and> path_join [] ''config.json'' = file_path example
   \<and> files (snd (write_config online example)) ''config.json'' = Some example_text
   \<and> config (snd (read_config online (init [] ''config.json'' (snd (write_config online example)))))
       = JDict [(''General'', JDict [(''x'', JStr ''false'')])]"
proof -
  have h: "file_path example \<notin> denied example"
    "json_loads online (json_dumps online (config example)) = Inr (config example)"
    "path_join [] ''config.json'' = file_path example"
    by (simp_all add: example_def online_def example_codec_loads_def example_codec_dumps_def
                      path_join_def)
  from write_config_round_trip[of online example "[]" "''config.json''"] h
  show ?thesis
    by (simp add: example_def online_def example_codec_dumps_def)
qed

text \<open>
  C9. \<open>update_site_config\<close> always returns to its caller. When the request raises or
  the status is not 200, it prints the failure and changes nothing else, so the site
  store is as it was. The site store changes only when a response with status 200 was
  received, and then it is the parsed body of that response.
\<close>

theorem update_site_config_outcome:
  "fst (update_site_config E s) = Inr ()
   \<and> (fetch_failed E api_url \<longrightarrow>
        update_site_config E s
          = (Inr (), emit (Console (site_failure E)) (emit (Console FetchingSite) s))
        \<and> configSite (snd (update_site_config E s)) = configSite s)
   \<and> (configSite (snd (update_site_config E s)) \<noteq> configSite s \<longrightarrow>
        (\<exists>r. http_get E api_url = Inr r \<and> status_code r = 200
             \<and> json_body r = Inr (configSite (snd (update_site_config E s)))))
   \<and> (\<forall>r j. http_get E api_url = Inr r \<and> status_code r = 200 \<and> json_body r = Inr j \<longrightarrow>
        configSite (snd (update_site_config E s)) = j)"
proof -
  have "configSite (snd (update_site_config E s)) = configSite s" if "fetch_failed E api_url"
    using update_site_config_failed[OF that, of s] by (simp add: emit_def)
  moreover have "configSite (snd (update_site_config E s)) = j"
    if "http_get E api_url = Inr r" "status_code r = 200" "json_body r = Inr j" for r j
    using update_site_config_ok[OF that, of s] by (simp add: emit_def)
  ultimately show ?thesis
    using update_site_config_returns[of E s] update_site_config_failed[of E s]
          update_site_config_replaced[of E s]
    by blast
qed

theorem update_site_config_outcome_witness:
  "fetch_failed offline api_url
   \<and> update_site_config offline example
       = (Inr (), example\<lparr>out := [Console FetchingSite, Console (SiteError RequestException)]\<rparr>)
   \<and> configSite (snd (update_site_config online example)) \<noteq> configSite example
   \<and> configSite (snd (update_site_config online example)) = JDict [(''site'', JDict [])]"
proof -
  let ?r = "\<lparr>status_code = 200, content = ''{}'', json_body = Inr (JDict [(''site'', JDict [])])\<rparr>"
  have f: "fetch_failed offline api_url"
    by (simp add: fetch_failed_def offline_def)
  have g: "http_get online api_url = Inr ?r"
    by (simp add: online_def)
  from update_site_config_outcome[of offline example] f
  have 1: "update_site_config offline example
             = (Inr (), emit (Console (site_failure offline)) (emit (Console FetchingSite) example))"
    by blast
  from update_site_config_outcome[of online example]
  have "\<forall>r j. http_get online api_url = Inr r \<and> status_code r = 200 \<and> json_body r = Inr j \<longrightarrow>
          configSite (snd (update_site_config online example)) = j"
    by blast
  from this[rule_format, of ?r "JDict [(''site'', JDict [])]"] g
  have 2: "configSite (snd (update_site_config online example)) = JDict [(''site'', JDict [])]"
    by simp
  have 3: "configSite example = JDict []"
    by (simp add: example_def)
  have 4: "emit (Console (site_failure offline)) (emit (Console FetchingSite) example)
             = example\<lparr>out := [Console FetchingSite, Console (SiteError RequestException)]\<rparr>"
    by (simp add: site_failure_def offline_def emit_def example_def)
  from f 1 2 3 4 show ?thesis by simp
qed

text \<open>
  C10. When the request of \<open>download_requirements\<close> raises or the status is not 200,
  the failure is logged and the call ends in \<^verbatim>\<open>SystemExit\<close> with code 0, no file
  written; \<open>read_config\<close>, which calls it when the file is missing, lets that exit
  through. The call returns only when a response with status 200 was received, and then
  the file holds the content of that response.
\<close>

theorem download_requirements_outcome:
  "(fetch_failed E url \<longrightarrow>
      download_requirements E url filename s
        = (Inl (SystemExit 0),
           emit (LogError (download_failure E url filename))
             (emit (LogInfo (Downloading filename url)) s)))
   \<and> (fst (download_requirements E url filename s) = Inr () \<longrightarrow>
        (\<exists>r. http_get E url = Inr r \<and> status_code r = 200
             \<and> files (snd (download_requirements E url filename s))
                 = (files s)(filename \<mapsto> content r)))
   \<and> (\<not> path_exists (file_path s) s \<and> fetch_failed E default_url \<longrightarrow>
        fst (read_config E s) = Inl (SystemExit 0))"
  using download_requirements_failed[of E url filename s]
        download_requirements_returned[of E url filename s "()"]
        read_config_exits[of s E]
  by blast

theorem download_requirements_outcome_witness:
  "fetch_failed online default_url
   \<and> fetch_failed offline default_url
   \<and> \<not> path_exists (file_path example) example
   \<and> download_requirements online default_url ''config.json'' example
       = (Inl (SystemExit 0),
          example\<lparr>out := [LogInfo (Downloading ''config.json'' default_url),
                          LogError (DownloadFailedStatus ''config.json'' 404)]\<rparr>)
   \<and> fst (download_requirements offline default_url ''config.json'' example) = Inl (SystemExit 0)
   \<and> fst (read_config offline example) = Inl (SystemExit 0)
   \<and> fst (download_requirements online api_url ''site.json'' example) = Inr ()
   \<and> files (snd (download_requirements online api_url ''site.json'' example)) ''site.json''
       = Some ''{}''"
proof -
  have f: "fetch_failed online default_url" "fetch_failed offline default_url"
    by (simp_all add: fetch_failed_def online_def offline_def api_url_def default_url_def)
  have p: "\<not> path_exists (file_path example) example"
    by (simp add: path_exists_def example_def)
  have r: "fst (download_requirements online api_url ''site.json'' example) = Inr ()"
    by (simp add: download_requirements_def try_except_def Let_def online_def open_write_def
                  emit_def example_def)
  have g: "http_get online api_url
             = Inr \<lparr>status_code = 200, content = ''{}'', json_body = Inr (JDict [(''site'', JDict [])])\<rparr>"
    by (simp add: online_def)
  from download_requirements_outcome[of online default_url "''config.json''" example]
       download_requirements_outcome[of offline default_url "''config.json''" example]
       download_requirements_outcome[of online api_url "''site.json''" example]
       f p r g
  show ?thesis
    by (simp add: download_failure_def online_def offline_def emit_def example_def
                  api_url_def default_url_def)
qed

end
